theory Spec2Isabelle
  imports Complex_Main
begin

section \<open>Simulation data types (frontend/src/types/simulation.ts)\<close>

text \<open>
  A TypeScript \<open>number\<close> is read as a real number. The values of this model arrive as
  JSON, which carries neither NaN nor an infinity. An optional property (\<open>p?: T\<close>) is an
  \<open>option\<close>: \<open>None\<close> is the absent (undefined) property.
\<close>

type_synonym number = real

record ShockConfig =
  type :: string
  magnitude :: number
  duration :: number
  start :: number
  recovery_rate :: "number option"

record RulesConfig =
  tariff :: number
  route_capacity :: number
  storage_cap :: number
  demand_elasticity :: number
  subsidy_rate :: "number option"

datatype AgentType = heuristic | rnn

record AgentConfig =
  type :: AgentType

record SimulationConfig =
  n_firms :: number
  horizon :: number
  seed :: "number option"
  shock :: ShockConfig
  rules :: RulesConfig
  agent :: "AgentConfig option"

text \<open>\<open>FirmData\<close> is an object keyed by firm name; its entries are kept in insertion order.\<close>

type_synonym FirmData = "(string \<times> number list) list"

record MarketData =
  price_index :: "number list"
  demand :: "number list"
  supply_true :: "number list"
  route_capacity :: "number list"
  tariff :: "number list"
  fill_ratio :: "number list"

record StabilityBreakdown =
  overall :: number
  price_component :: number
  production_component :: number
  demand_component :: number

record WelfareBreakdown =
  welfare_score :: number
  total_value :: number
  scarcity_penalty :: number
  avg_consumer_surplus :: number

text \<open>
  The interface \<open>Metrics\<close> declares its four scalars as numbers. A result is the unchecked
  \<open>response.json()\<close> of the backend, and \<open>CompareView\<close> reads each scalar through
  \<open>?? 0\<close>; so the scalars are modelled as they are at run time, possibly absent.
\<close>

record Metrics =
  stability :: "number option"
  stability_breakdown :: StabilityBreakdown
  welfare :: "number option"
  welfare_breakdown :: WelfareBreakdown
  cartel_likelihood :: "number option"
  adapt_speed :: "number option"

record CartelSignals =
  cartel_likelihood :: number
  price_correlation_signal :: number
  throttling_signal :: number
  margin_signal :: number

record CartelData =
  score_t :: "number list"
  signals :: CartelSignals

text \<open>
  \<open>CompareView\<close> guards \<open>metrics\<close> with \<open>?.\<close> and \<open>!\<close>, so the field is an option here.
\<close>

record SimulationResult =
  t :: "number list"
  prices :: FirmData
  production :: FirmData
  sales :: FirmData
  inventory :: FirmData
  market :: MarketData
  metrics :: "Metrics option"
  cartel :: CartelData
  config :: SimulationConfig

record SimulationParams =
  seed :: number
  n_firms :: number
  horizon :: number
  shock_magnitude :: number
  shock_duration :: number
  shock_start :: number
  tariff :: number
  route_capacity :: number
  storage_cap :: number
  demand_elasticity :: number
  agent_type :: AgentType

definition DEFAULT_PARAMS :: SimulationParams where
  "DEFAULT_PARAMS =
     \<lparr> seed = 7, n_firms = 3, horizon = 36,
       shock_magnitude = 4 / 10, shock_duration = 8, shock_start = 10,
       tariff = 5 / 100, route_capacity = 1, storage_cap = 1,
       demand_elasticity = 12 / 10, agent_type = heuristic \<rparr>"


section \<open>The API client (class ApiService)\<close>

text \<open>
  \<open>fetch\<close> is the one effect of \<open>runSimulation\<close>. It is a parameter of the model: a
  function from the request to either a thrown error or a response, whose \<open>text()\<close>
  and \<open>json()\<close> each give the body (as text, or parsed) or reject with an error again.
  The request body is \<open>JSON.stringify(config)\<close>; the model keeps the config itself.
\<close>

record 'b HttpRequest =
  url :: string
  http_method :: string
  headers :: "(string \<times> string) list"
  body :: 'b
  timeout_ms :: nat

datatype api_error =
    FetchError string
  | SimulationFailed nat string
  | JsonError string

record 'a HttpResponse =
  ok :: bool
  status :: nat
  text_of :: "api_error + string"
  json_of :: "api_error + 'a"

text \<open>The object literal \<open>config\<close> built at the head of \<open>runSimulation\<close>.\<close>

definition runSimulation_config :: "SimulationParams \<Rightarrow> SimulationConfig" where
  "runSimulation_config params =
     \<lparr> SimulationConfig.n_firms = SimulationParams.n_firms params,
       SimulationConfig.horizon = SimulationParams.horizon params,
       SimulationConfig.seed = Some (SimulationParams.seed params),
       shock =
         \<lparr> ShockConfig.type = ''lithium_supply'',
           magnitude = shock_magnitude params,
           duration = shock_duration params,
           start = shock_start params,
           recovery_rate = Some 1 \<rparr>,
       rules =
         \<lparr> RulesConfig.tariff = SimulationParams.tariff params,
           RulesConfig.route_capacity = SimulationParams.route_capacity params,
           RulesConfig.storage_cap = SimulationParams.storage_cap params,
           RulesConfig.demand_elasticity = SimulationParams.demand_elasticity params,
           subsidy_rate = Some 0 \<rparr>,
       agent = Some \<lparr> AgentConfig.type = agent_type params \<rparr> \<rparr>"

definition runSimulation_request ::
  "string \<Rightarrow> SimulationParams \<Rightarrow> SimulationConfig HttpRequest" where
  "runSimulation_request baseUrl params =
     \<lparr> url = baseUrl @ ''/simulate'',
       http_method = ''POST'',
       headers = [(''Content-Type'', ''application/json'')],
       body = runSimulation_config params,
       timeout_ms = 30000 \<rparr>"

definition runSimulation ::
  "(SimulationConfig HttpRequest \<Rightarrow> api_error + SimulationResult HttpResponse) \<Rightarrow>
   string \<Rightarrow> SimulationParams \<Rightarrow> api_error + SimulationResult" where
  "runSimulation fetch baseUrl params =
     (case fetch (runSimulation_request baseUrl params) of
        Inl e \<Rightarrow> Inl e
      | Inr response \<Rightarrow>
          if \<not> ok response then
            (case text_of response of
               Inl e \<Rightarrow> Inl e
             | Inr errorText \<Rightarrow> Inl (SimulationFailed (status response) errorText))
          else json_of response)"

definition buildConfig :: "SimulationParams \<Rightarrow> SimulationConfig" where
  "buildConfig params =
     \<lparr> SimulationConfig.n_firms = SimulationParams.n_firms params,
       SimulationConfig.horizon = SimulationParams.horizon params,
       SimulationConfig.seed = Some (SimulationParams.seed params),
       shock =
         \<lparr> ShockConfig.type = ''lithium_supply'',
           magnitude = shock_magnitude params,
           duration = shock_duration params,
           start = shock_start params,
           recovery_rate = Some 1 \<rparr>,
       rules =
         \<lparr> RulesConfig.tariff = SimulationParams.tariff params,
           RulesConfig.route_capacity = SimulationParams.route_capacity params,
           RulesConfig.storage_cap = SimulationParams.storage_cap params,
           RulesConfig.demand_elasticity = SimulationParams.demand_elasticity params,
           subsidy_rate = Some 0 \<rparr>,
       agent = Some \<lparr> AgentConfig.type = agent_type params \<rparr> \<rparr>"


section \<open>The comparison view (component CompareView)\<close>

text \<open>The nullish coalescing \<open>x ?? 0\<close> on a possibly absent number.\<close>

definition nullish0 :: "number option \<Rightarrow> number" where
  "nullish0 x = (case x of None \<Rightarrow> 0 | Some v \<Rightarrow> v)"

record MetricRow =
  label :: string
  baseline :: number
  learned :: number
  better :: string
  isHigherBetter :: bool

text \<open>
  The memo \<open>metricComparison\<close>. The props \<open>baseline\<close> and \<open>learned\<close> are read through
  \<open>?.\<close>, so each may be absent.
\<close>

definition metricComparison ::
  "SimulationResult option \<Rightarrow> SimulationResult option \<Rightarrow> MetricRow list" where
  "metricComparison baseline_result learned_result =
     (case (Option.bind baseline_result metrics, Option.bind learned_result metrics) of
        (Some bm, Some lm) \<Rightarrow>
          [ \<lparr> label = ''Stability'',
              baseline = nullish0 (stability bm),
              learned = nullish0 (stability lm),
              better = (if nullish0 (stability lm) \<ge> nullish0 (stability bm)
                        then ''learned'' else ''baseline''),
              isHigherBetter = True \<rparr>,
            \<lparr> label = ''Cartel Likelihood'',
              baseline = nullish0 (Metrics.cartel_likelihood bm),
              learned = nullish0 (Metrics.cartel_likelihood lm),
              better = (if nullish0 (Metrics.cartel_likelihood lm)
                            \<le> nullish0 (Metrics.cartel_likelihood bm)
                        then ''learned'' else ''baseline''),
              isHigherBetter = False \<rparr>,
            \<lparr> label = ''Welfare'',
              baseline = nullish0 (welfare bm),
              learned = nullish0 (welfare lm),
              better = (if nullish0 (welfare lm) \<ge> nullish0 (welfare bm)
                        then ''learned'' else ''baseline''),
              isHigherBetter = True \<rparr>,
            \<lparr> label = ''Adapt Speed'',
              baseline = nullish0 (adapt_speed bm),
              learned = nullish0 (adapt_speed lm),
              better = (if nullish0 (adapt_speed lm) \<le> nullish0 (adapt_speed bm)
                        then ''learned'' else ''baseline''),
              isHigherBetter = False \<rparr> ]
      | _ \<Rightarrow> [])"

definition learnedWins :: "MetricRow list \<Rightarrow> nat" where
  "learnedWins rows = length (filter (\<lambda>m. better m = ''learned'') rows)"

definition baselineWins :: "MetricRow list \<Rightarrow> nat" where
  "baselineWins rows = length (filter (\<lambda>m. better m = ''baseline'') rows)"

text \<open>The memo \<open>winner\<close>, over the rows of \<open>metricComparison\<close>.\<close>

definition winner :: "MetricRow list \<Rightarrow> string" where
  "winner rows =
     (if length rows = 0 then ''tie''
      else if learnedWins rows > baselineWins rows then ''learned''
      else if baselineWins rows > learnedWins rows then ''baseline''
      else ''tie'')"


section \<open>The simulation core: data model\<close>

text \<open>
  The simulation core (shock model, observation generator, policies, market clearing,
  orchestrator) is the backend behind \<open>POST /simulate\<close>; its modules (\<open>sim/\<close>,
  \<open>agents/\<close>) are not among the sources. The frontend only declares the shape of what
  it returns (\<open>SimulationResult\<close>: one array entry per period in \<open>t\<close>, and per-firm
  series of prices, production, sales and inventory). The model of the core below
  therefore follows the specification: its data model, the fixed order of the
  market-clearing steps and the orchestrator's loop. What the specification fixes only by
  contract (the shock multiplier, the noise stream, the policies, the demand curve, the
  weights of the price index, the pro-rata shares) is a field of \<open>Components\<close>, so
  every result below holds for every choice of them.
\<close>

datatype AgentSelector = Heuristic | Belief

text \<open>
  Modelled from the spec: the shock parameters of \<open>ScenarioConfig\<close> (type, magnitude,
  duration in periods, start period, recovery rate); duration and start are integers.
\<close>

record ShockSpec =
  type :: string
  magnitude :: real
  duration :: int
  start :: int
  recovery_rate :: real

text \<open>
  Modelled from the spec: the rule parameters of \<open>ScenarioConfig\<close> (tariff rate,
  route-capacity multiplier, storage-capacity multiplier, demand elasticity, subsidy rate).
\<close>

record RuleParams =
  tariff :: real
  route_capacity :: real
  storage_cap :: real
  demand_elasticity :: real
  subsidy_rate :: real

text \<open>
  Modelled from the spec: \<open>ScenarioConfig\<close>, the immutable input of a rollout, with the
  integer fields of the interface table (n_firms, horizon, seed).
\<close>

record ScenarioConfig =
  n_firms :: int
  horizon :: int
  seed :: int
  shock :: ShockSpec
  rules :: RuleParams
  agent :: AgentSelector

text \<open>
  Modelled from the spec: \<open>Firm\<close>, the per-agent state (identifier, current price,
  production level, inventory level, cumulative sales). \<open>sales\<close> is the volume sold in
  the last cleared period: the observation reports it exactly, and the result carries it
  as a per-firm series.
\<close>

record Firm =
  ident :: nat
  price :: real
  production :: real
  sales :: real
  inventory :: real
  cumulative_sales :: real

text \<open>
  Modelled from the spec: \<open>MarketState\<close> (true supply, realized demand, price index,
  fill ratio, current tariff and route capacity), with the diagnostic flag of a
  degenerate demand.
\<close>

record MarketState =
  supply_true :: real
  demand :: real
  price_index :: real
  fill_ratio :: real
  tariff :: real
  route_capacity :: real
  demand_degenerate :: bool

text \<open>
  Modelled from the spec: \<open>Observation\<close>, a firm's view of one period (noisy estimate
  of aggregate supply, own inventory, last-period own price and sales, a noisy market
  signal).
\<close>

record Observation =
  supply_estimate :: real
  own_inventory :: real
  last_price :: real
  last_sales :: real
  market_signal :: real

text \<open>Modelled from the spec: the decision of a policy, \<open>{production_target, price}\<close>.\<close>

record Action =
  production_target :: real
  price :: real

text \<open>Modelled from the spec: \<open>BeliefState\<close>, a fixed-size hidden vector per firm.\<close>

type_synonym BeliefState = "real list"

text \<open>
  Modelled from the spec: one entry of the \<open>Trajectory\<close>, the snapshot of the firms and
  of the market state of a period.
\<close>

record Snapshot =
  period :: nat
  firms :: "Firm list"
  market :: MarketState

text \<open>
  Modelled from the spec: \<open>Trajectory\<close>, the ordered sequence of per-period snapshots
  plus the full observation history (one list of observations per period).
\<close>

record Trajectory =
  snapshots :: "Snapshot list"
  observations :: "Observation list list"

text \<open>
  Modelled from the spec: the error kinds that surface to the caller. A numeric
  degeneracy is not one of them: it is a flag of the market state.
\<close>

datatype core_error = ConfigError | SimulationError

text \<open>
  Modelled from the spec: the parts of the core that the specification describes by
  contract only. \<open>base_capacity\<close> is the reference capacity of a firm that the storage
  cap multiplies; \<open>initial_inventory\<close>, \<open>initial_price\<close> and \<open>initial_market\<close> are the
  configured starting state; \<open>shock_multiplier\<close> is the Shock Model;
  \<open>random_stream\<close> is the deterministic stream of a seed, read by position;
  \<open>noise_fraction\<close> is the standard deviation of the supply signal as a fraction of true
  supply; \<open>heuristic_policy\<close> and \<open>belief_policy\<close> are the two strategies, \<open>None\<close> being
  a policy failure; \<open>reference_demand\<close> is the demand curve (effective consumer price,
  elasticity); \<open>price_index_of\<close> is the weighted average of the firms' prices;
  \<open>demand_share\<close> is the share of demand that falls on the firm at an index.
\<close>

record Components =
  base_capacity :: real
  initial_inventory :: real
  initial_price :: real
  initial_market :: MarketState
  belief_size :: nat
  shock_multiplier :: "nat \<Rightarrow> ShockSpec \<Rightarrow> real"
  random_stream :: "int \<Rightarrow> nat \<Rightarrow> real"
  noise_fraction :: real
  market_signal_of :: "MarketState \<Rightarrow> real \<Rightarrow> real"
  heuristic_policy :: "Observation \<Rightarrow> Action option"
  belief_policy :: "Observation \<Rightarrow> BeliefState \<Rightarrow> (Action \<times> BeliefState) option"
  reference_demand :: "real \<Rightarrow> real \<Rightarrow> real"
  price_index_of :: "Action list \<Rightarrow> real"
  demand_share :: "Action list \<Rightarrow> nat \<Rightarrow> real"

text \<open>
  Modelled from the spec: the state the orchestrator threads from one period to the next
  (firms, previous market state, belief states, position in the random stream).
\<close>

record RolloutState =
  firms :: "Firm list"
  market :: MarketState
  beliefs :: "BeliefState list"
  stream_pos :: nat


section \<open>The simulation core: components\<close>

text \<open>
  Modelled from the spec: ingestion of a \<open>ScenarioConfig\<close>. A config outside the ranges
  of the interface table is a \<open>ConfigError\<close>, raised before any simulation state exists;
  all multipliers and rates are non-negative; a magnitude above 1 is clamped, a negative
  one is rejected.
\<close>

definition ingest :: "ScenarioConfig \<Rightarrow> core_error + ScenarioConfig" where
  "ingest cfg =
     (if n_firms cfg < 2 \<or> horizon cfg < 1
         \<or> ShockSpec.magnitude (shock cfg) < 0
         \<or> ShockSpec.duration (shock cfg) < 0
         \<or> ShockSpec.start (shock cfg) < 0
         \<or> ShockSpec.recovery_rate (shock cfg) < 0
         \<or> RuleParams.tariff (rules cfg) < 0
         \<or> RuleParams.route_capacity (rules cfg) \<le> 0
         \<or> RuleParams.storage_cap (rules cfg) \<le> 0
         \<or> RuleParams.demand_elasticity (rules cfg) \<le> 0
         \<or> RuleParams.subsidy_rate (rules cfg) < 0
      then Inl ConfigError
      else Inr (cfg \<lparr> shock :=
                  (shock cfg) \<lparr> ShockSpec.magnitude :=
                      min 1 (ShockSpec.magnitude (shock cfg)) \<rparr> \<rparr>))"

text \<open>
  Modelled from the spec: the firms of the orchestrator's initial state, one per firm of
  the config, at the configured starting inventory and price.
\<close>

definition initial_firms :: "Components \<Rightarrow> ScenarioConfig \<Rightarrow> Firm list" where
  "initial_firms C cfg =
     map (\<lambda>i. \<lparr> ident = i, Firm.price = initial_price C, production = 0, sales = 0,
                inventory = initial_inventory C, cumulative_sales = 0 \<rparr>)
         [0 ..< nat (n_firms cfg)]"

text \<open>
  Modelled from the spec: the initial state of the orchestrator, the initial firms with
  belief states zeroed and the random stream at its start.
\<close>

definition initial_state :: "Components \<Rightarrow> ScenarioConfig \<Rightarrow> RolloutState" where
  "initial_state C cfg =
     \<lparr> RolloutState.firms = initial_firms C cfg,
       RolloutState.market = initial_market C,
       beliefs = replicate (nat (n_firms cfg)) (replicate (belief_size C) 0),
       stream_pos = 0 \<rparr>"

text \<open>
  Modelled from the spec: the Observation Generator. The supply signal is true supply
  plus zero-mean noise scaled by a fixed fraction of true supply, drawn from the
  rollout's stream; own inventory, price and sales are exact. It returns the observation
  and the advanced stream position.
\<close>

definition observe ::
  "Components \<Rightarrow> ScenarioConfig \<Rightarrow> MarketState \<Rightarrow> nat \<Rightarrow> Firm \<Rightarrow> Observation \<times> nat" where
  "observe C cfg ms pos f =
     (\<lparr> supply_estimate =
          supply_true ms + noise_fraction C * supply_true ms * random_stream C (seed cfg) pos,
        own_inventory = inventory f,
        last_price = Firm.price f,
        last_sales = sales f,
        market_signal = market_signal_of C ms (random_stream C (seed cfg) (pos + 1)) \<rparr>,
      pos + 2)"

text \<open>
  Modelled from the spec: the observations of all firms of a period, built in firm order
  from the one stream.
\<close>

fun observe_all ::
  "Components \<Rightarrow> ScenarioConfig \<Rightarrow> MarketState \<Rightarrow> nat \<Rightarrow> Firm list \<Rightarrow> Observation list \<times> nat"
where
  "observe_all C cfg ms pos [] = ([], pos)"
| "observe_all C cfg ms pos (f # fs) =
     (case observe C cfg ms pos f of
        (ob, pos') \<Rightarrow>
          (case observe_all C cfg ms pos' fs of (obs, pos'') \<Rightarrow> (ob # obs, pos'')))"

text \<open>
  Modelled from the spec: the two strategies behind one contract,
  \<open>decide(observation, belief_state) -> (action, belief_state')\<close>; the heuristic is
  stateless and leaves the belief state as it is.
\<close>

definition decide ::
  "Components \<Rightarrow> AgentSelector \<Rightarrow> Observation \<Rightarrow> BeliefState \<Rightarrow> (Action \<times> BeliefState) option"
where
  "decide C sel ob b =
     (case sel of
        Heuristic \<Rightarrow> (case heuristic_policy C ob of None \<Rightarrow> None | Some a \<Rightarrow> Some (a, b))
      | Belief \<Rightarrow> belief_policy C ob b)"

text \<open>
  Modelled from the spec: each firm's policy is invoked on its own observation and belief
  state. The first failure fails the whole period; so does a firm without a belief state.
\<close>

fun decide_all ::
  "Components \<Rightarrow> AgentSelector \<Rightarrow> Observation list \<Rightarrow> BeliefState list
     \<Rightarrow> (Action \<times> BeliefState) list option"
where
  "decide_all C sel [] bs = Some []"
| "decide_all C sel (ob # obs) [] = None"
| "decide_all C sel (ob # obs) (b # bs) =
     (case decide C sel ob b of
        None \<Rightarrow> None
      | Some d \<Rightarrow>
          (case decide_all C sel obs bs of None \<Rightarrow> None | Some ds \<Rightarrow> Some (d # ds)))"

text \<open>
  Modelled from the spec: step 3 of market clearing. The fill ratio is
  \<open>min(1, supply/demand)\<close>; a demand of zero or less gives the fill ratio 1 and sets the
  diagnostic flag instead of dividing.
\<close>

definition fill_ratio_of :: "real \<Rightarrow> real \<Rightarrow> real \<times> bool" where
  "fill_ratio_of supply dem =
     (if dem \<le> 0 then (1, True) else (min 1 (supply / dem), False))"

text \<open>Modelled from the spec: clamping a value into \<open>[lo, hi]\<close>.\<close>

definition clamp :: "real \<Rightarrow> real \<Rightarrow> real \<Rightarrow> real" where
  "clamp lo hi x = max lo (min hi x)"

text \<open>
  Modelled from the spec: step 4 of market clearing. The inventory grows by production
  minus sales and is clamped to \<open>[0, cap]\<close>, where \<open>cap\<close> is
  \<open>storage_cap * base_capacity\<close>; what exceeds the cap is discarded.
\<close>

definition update_inventory :: "real \<Rightarrow> real \<Rightarrow> real \<Rightarrow> real \<Rightarrow> real" where
  "update_inventory cap stock made sold = clamp 0 cap (stock + made - sold)"

text \<open>
  Modelled from the spec: the firm after clearing, with price and production as its
  policy set them, the realized sales and the updated inventory.
\<close>

definition settle :: "real \<Rightarrow> Firm \<Rightarrow> Action \<Rightarrow> real \<Rightarrow> Firm" where
  "settle cap f a sold =
     f \<lparr> Firm.price := Action.price a,
         production := production_target a,
         sales := sold,
         inventory := update_inventory cap (inventory f) (production_target a) sold,
         cumulative_sales := cumulative_sales f + sold \<rparr>"

text \<open>
  Modelled from the spec: the sales of step 3, each firm's pro-rata share of the filled
  demand (fill ratio times demand times the firm's share of demand).
\<close>

definition firm_sales :: "Components \<Rightarrow> real \<Rightarrow> real \<Rightarrow> Action list \<Rightarrow> real list" where
  "firm_sales C fill dem as = map (\<lambda>i. fill * dem * demand_share C as i) [0 ..< length as]"

text \<open>Modelled from the spec: clearing settles every firm with its own action and sales.\<close>

fun settle_all :: "real \<Rightarrow> Firm list \<Rightarrow> Action list \<Rightarrow> real list \<Rightarrow> Firm list" where
  "settle_all cap (f # fs) (a # as) (s # ss) = settle cap f a s # settle_all cap fs as ss"
| "settle_all cap fs as ss = []"

text \<open>
  Modelled from the spec: the Market Clearing Engine, its five steps in their fixed
  order. (1) True supply is the summed production scaled by the shock multiplier and by
  route capacity. (2) Demand is the reference curve at the price index, the tariff
  raising the consumer price. (3) Fill ratio, and each firm's sales as its share of the
  filled demand. (4) Inventory update. (5) The price index is the weighted average of the
  firms' prices, which clearing leaves as the policies set them.
\<close>

definition clear_market ::
  "Components \<Rightarrow> RuleParams \<Rightarrow> real \<Rightarrow> Firm list \<Rightarrow> Action list \<Rightarrow> MarketState \<times> Firm list"
where
  "clear_market C rp mult fs as =
     (let supply = sum_list (map production_target as) * mult * RuleParams.route_capacity rp;
          pidx = price_index_of C as;
          dem = reference_demand C (pidx * (1 + RuleParams.tariff rp))
                  (RuleParams.demand_elasticity rp);
          fill = fill_ratio_of supply dem;
          sold = firm_sales C (fst fill) dem as;
          fs' = settle_all (RuleParams.storage_cap rp * base_capacity C) fs as sold
      in (\<lparr> supply_true = supply, demand = dem, price_index = pidx,
            fill_ratio = fst fill, tariff = RuleParams.tariff rp,
            route_capacity = RuleParams.route_capacity rp,
            demand_degenerate = snd fill \<rparr>,
          fs'))"


section \<open>The simulation core: the rollout orchestrator\<close>

text \<open>
  Modelled from the spec: one period of the orchestrator, in its fixed order: shock
  multiplier, observations for all firms, each firm's policy, market clearing, snapshot.
  A policy failure aborts with a \<open>SimulationError\<close>.
\<close>

definition step ::
  "Components \<Rightarrow> ScenarioConfig \<Rightarrow> nat \<Rightarrow> RolloutState
     \<Rightarrow> core_error + (Snapshot \<times> Observation list \<times> RolloutState)"
where
  "step C cfg p st =
     (let mult = shock_multiplier C p (shock cfg) in
      case observe_all C cfg (RolloutState.market st) (stream_pos st) (RolloutState.firms st) of
        (obs, pos') \<Rightarrow>
          (case decide_all C (agent cfg) obs (beliefs st) of
             None \<Rightarrow> Inl SimulationError
           | Some ds \<Rightarrow>
               (case clear_market C (rules cfg) mult (RolloutState.firms st) (map fst ds) of
                  (ms, fs') \<Rightarrow>
                    Inr (\<lparr> period = p, Snapshot.firms = fs', Snapshot.market = ms \<rparr>,
                         obs,
                         \<lparr> RolloutState.firms = fs', RolloutState.market = ms,
                           beliefs = map snd ds, stream_pos = pos' \<rparr>))))"

text \<open>
  Modelled from the spec: the loop \<open>for period = 0..horizon-1\<close>, appending one snapshot
  (and the period's observations) to the trajectory per period. An error ends the
  rollout with nothing partial returned.
\<close>

function rollout_loop ::
  "Components \<Rightarrow> ScenarioConfig \<Rightarrow> nat \<Rightarrow> RolloutState \<Rightarrow> Trajectory \<Rightarrow> core_error + Trajectory"
where
  "rollout_loop C cfg p st traj =
     (if int p < horizon cfg then
        (case step C cfg p st of
           Inl e \<Rightarrow> Inl e
         | Inr (snap, obs, st') \<Rightarrow>
             rollout_loop C cfg (p + 1) st'
               \<lparr> snapshots = snapshots traj @ [snap],
                 observations = observations traj @ [obs] \<rparr>)
      else Inr traj)"
  by pat_completeness auto
termination
  by (relation "measure (\<lambda>(C, cfg, p, st, traj). nat (horizon cfg) - p)") auto

declare rollout_loop.simps [simp del]

text \<open>
  Modelled from the spec: the Rollout Orchestrator, the loop from period 0 on the initial
  state with an empty trajectory.
\<close>

definition rollout :: "Components \<Rightarrow> ScenarioConfig \<Rightarrow> core_error + Trajectory" where
  "rollout C cfg =
     rollout_loop C cfg 0 (initial_state C cfg) \<lparr> snapshots = [], observations = [] \<rparr>"

text \<open>
  Modelled from the spec: the trajectory that \<open>run(config)\<close> produces, ingestion followed
  by the rollout. (The cartel detector and the metrics engine read the finished
  trajectory and do not change it.)
\<close>

definition run_trajectory :: "Components \<Rightarrow> ScenarioConfig \<Rightarrow> core_error + Trajectory" where
  "run_trajectory C cfg =
     (case ingest cfg of Inl e \<Rightarrow> Inl e | Inr cfg' \<Rightarrow> rollout C cfg')"

text \<open>
  Modelled from the spec: a firm \<open>f\<close> before and \<open>f'\<close> after a period are related by
  the inventory update when the inventory of \<open>f'\<close> is the update of the inventory of
  \<open>f\<close> by the production and the sales of the period.
\<close>

definition inventory_updated :: "real \<Rightarrow> Firm \<Rightarrow> Firm \<Rightarrow> bool" where
  "inventory_updated cap f f' =
     (inventory f' = update_inventory cap (inventory f) (production f') (sales f'))"


section \<open>Fixtures for the concrete instances\<close>

definition example_metrics :: "number \<Rightarrow> number \<Rightarrow> number \<Rightarrow> number \<Rightarrow> Metrics" where
  "example_metrics s c w a =
     \<lparr> stability = Some s,
       stability_breakdown =
         \<lparr> overall = s, price_component = s, production_component = s, demand_component = s \<rparr>,
       welfare = Some w,
       welfare_breakdown =
         \<lparr> welfare_score = w, total_value = w, scarcity_penalty = 0, avg_consumer_surplus = 0 \<rparr>,
       Metrics.cartel_likelihood = Some c,
       adapt_speed = Some a \<rparr>"

definition example_result :: "Metrics \<Rightarrow> SimulationResult" where
  "example_result m =
     \<lparr> t = [0], prices = [], SimulationResult.production = [], SimulationResult.sales = [],
       SimulationResult.inventory = [],
       SimulationResult.market =
         \<lparr> MarketData.price_index = [1], MarketData.demand = [1], MarketData.supply_true = [1],
           MarketData.route_capacity = [1], MarketData.tariff = [0],
           MarketData.fill_ratio = [1] \<rparr>,
       metrics = Some m,
       cartel =
         \<lparr> score_t = [0],
           signals =
             \<lparr> CartelSignals.cartel_likelihood = 0, price_correlation_signal = 0,
               throttling_signal = 0, margin_signal = 0 \<rparr> \<rparr>,
       config = buildConfig DEFAULT_PARAMS \<rparr>"


text \<open>
  A concrete instance of the core: three firms, a linear demand curve, the mean price as
  price index, equal shares, a noise-free stream, and a shock that ends without a
  recovery phase. The config is the sample request of the backend's documentation, with
  the horizon left open.
\<close>

definition example_components :: Components where
  "example_components =
     \<lparr> base_capacity = 100,
       initial_inventory = 50,
       initial_price = 10,
       initial_market =
         \<lparr> supply_true = 300, MarketState.demand = 300, MarketState.price_index = 10,
           MarketState.fill_ratio = 1, MarketState.tariff = 0,
           MarketState.route_capacity = 1, demand_degenerate = False \<rparr>,
       belief_size = 2,
       shock_multiplier =
         (\<lambda>p s. if int p < ShockSpec.start s \<or> ShockSpec.start s + ShockSpec.duration s \<le> int p
                then 1 else 1 - ShockSpec.magnitude s),
       random_stream = (\<lambda>sd pos. 0),
       noise_fraction = 1 / 20,
       market_signal_of = (\<lambda>ms z. MarketState.price_index ms + z),
       heuristic_policy =
         (\<lambda>ob. Some (if supply_estimate ob < 200
                      then \<lparr> production_target = 60, Action.price = 12 \<rparr>
                      else \<lparr> production_target = 100, Action.price = 10 \<rparr>)),
       belief_policy =
         (\<lambda>ob b. Some (\<lparr> production_target = 100, Action.price = 10 \<rparr>,
                       map (\<lambda>x. x / 2 + supply_estimate ob) b)),
       reference_demand = (\<lambda>p e. 400 - 10 * e * p),
       price_index_of =
         (\<lambda>as. if as = [] then 0 else sum_list (map Action.price as) / real (length as)),
       demand_share = (\<lambda>as i. 1 / real (length as)) \<rparr>"

definition example_config :: "int \<Rightarrow> ScenarioConfig" where
  "example_config h =
     \<lparr> n_firms = 3, horizon = h, seed = 7,
       shock = \<lparr> ShockSpec.type = ''lithium_supply'', magnitude = 45 / 100,
                 duration = 10, start = 8, recovery_rate = 1 \<rparr>,
       rules = \<lparr> RuleParams.tariff = 8 / 100, route_capacity = 7 / 10,
                 storage_cap = 12 / 10, demand_elasticity = 11 / 10, subsidy_rate = 0 \<rparr>,
       agent = Heuristic \<rparr>"


section \<open>The request config of the API client\<close>

lemma runSimulation_config_eq_buildConfig: "runSimulation_config params = buildConfig params"
  by (simp add: runSimulation_config_def buildConfig_def)

text \<open>
  C9. Whatever the parameters, \<open>buildConfig\<close> and \<open>runSimulation\<close> build a config whose
  \<open>shock.recovery_rate\<close> is 1.0, whose \<open>shock.type\<close> is \<open>lithium_supply\<close> and whose
  \<open>rules.subsidy_rate\<close> is 0.0; every other field is the corresponding field of the
  parameters. The config is the body of the request \<open>runSimulation\<close> hands to \<open>fetch\<close>,
  and \<open>runSimulation\<close> depends on \<open>fetch\<close> only at that request. \<open>runSimulation\<close>
  does send it: its result is what \<open>fetch\<close> answers to the POST to \<open>/simulate\<close> whose
  body is \<open>buildConfig params\<close>. A \<open>fetch\<close> that answers only that request, and fails
  on every other, makes \<open>runSimulation\<close> return the parsed answer when the response is
  ok and throw \<open>Simulation failed\<close> with the status and the text when it is not; a
  \<open>fetch\<close> that throws the request's URL makes it throw \<open>baseUrl/simulate\<close>.
\<close>

theorem buildConfig_fixed_and_copied:
  "ShockConfig.recovery_rate (SimulationConfig.shock (buildConfig params)) = Some 1
   \<and> ShockConfig.type (SimulationConfig.shock (buildConfig params)) = ''lithium_supply''
   \<and> RulesConfig.subsidy_rate (SimulationConfig.rules (buildConfig params)) = Some 0
   \<and> SimulationConfig.n_firms (buildConfig params) = SimulationParams.n_firms params
   \<and> SimulationConfig.horizon (buildConfig params) = SimulationParams.horizon params
   \<and> SimulationConfig.seed (buildConfig params) = Some (SimulationParams.seed params)
   \<and> ShockConfig.magnitude (SimulationConfig.shock (buildConfig params)) = shock_magnitude params
   \<and> ShockConfig.duration (SimulationConfig.shock (buildConfig params)) = shock_duration params
   \<and> ShockConfig.start (SimulationConfig.shock (buildConfig params)) = shock_start params
   \<and> RulesConfig.tariff (SimulationConfig.rules (buildConfig params)) = SimulationParams.tariff params
   \<and> RulesConfig.route_capacity (SimulationConfig.rules (buildConfig params))
       = SimulationParams.route_capacity params
   \<and> RulesConfig.storage_cap (SimulationConfig.rules (buildConfig params)) = SimulationParams.storage_cap params
   \<and> RulesConfig.demand_elasticity (SimulationConfig.rules (buildConfig params))
       = SimulationParams.demand_elasticity params
   \<and> SimulationConfig.agent (buildConfig params) = Some \<lparr> AgentConfig.type = agent_type params \<rparr>
   \<and> body (runSimulation_request baseUrl params) = buildConfig params
   \<and> runSimulation fetch baseUrl params
       = runSimulation
           (\<lambda>request. fetch (request \<lparr> body := buildConfig params \<rparr>)) baseUrl params
   \<and> runSimulation fetch baseUrl params
       = (case fetch \<lparr> url = baseUrl @ ''/simulate'', http_method = ''POST'',
                       headers = [(''Content-Type'', ''application/json'')],
                       body = buildConfig params, timeout_ms = 30000 \<rparr> of
            Inl e \<Rightarrow> Inl e
          | Inr response \<Rightarrow>
              if ok response then json_of response
              else (case text_of response of
                      Inl e \<Rightarrow> Inl e
                    | Inr errorText \<Rightarrow> Inl (SimulationFailed (status response) errorText)))
   \<and> runSimulation
         (\<lambda>request.
            if url request = baseUrl @ ''/simulate'' \<and> http_method request = ''POST''
               \<and> body request = buildConfig params
            then Inr \<lparr> ok = True, status = 200, text_of = Inr [], json_of = Inr result \<rparr>
            else Inl (FetchError ''unexpected request''))
         baseUrl params
       = Inr result
   \<and> runSimulation
         (\<lambda>request.
            if url request = baseUrl @ ''/simulate'' \<and> http_method request = ''POST''
               \<and> body request = buildConfig params
            then Inr \<lparr> ok = False, status = code, text_of = Inr errorText,
                       json_of = Inr result \<rparr>
            else Inl (FetchError ''unexpected request''))
         baseUrl params
       = Inl (SimulationFailed code errorText)
   \<and> runSimulation (\<lambda>request. Inl (FetchError (url request))) baseUrl params
       = Inl (FetchError (baseUrl @ ''/simulate''))"
proof -
  have sent: "runSimulation fetch baseUrl params
       = (case fetch \<lparr> url = baseUrl @ ''/simulate'', http_method = ''POST'',
                       headers = [(''Content-Type'', ''application/json'')],
                       body = buildConfig params, timeout_ms = 30000 \<rparr> of
            Inl e \<Rightarrow> Inl e
          | Inr response \<Rightarrow>
              if ok response then json_of response
              else (case text_of response of
                      Inl e \<Rightarrow> Inl e
                    | Inr errorText \<Rightarrow> Inl (SimulationFailed (status response) errorText)))"
    for fetch
    by (simp add: runSimulation_def runSimulation_request_def
          runSimulation_config_eq_buildConfig split: sum.splits)
  have answered: "runSimulation
         (\<lambda>request.
            if url request = baseUrl @ ''/simulate'' \<and> http_method request = ''POST''
               \<and> body request = buildConfig params
            then Inr \<lparr> ok = True, status = 200, text_of = Inr [], json_of = Inr result \<rparr>
            else Inl (FetchError ''unexpected request''))
         baseUrl params
       = Inr result"
    unfolding sent by simp
  have refused: "runSimulation
         (\<lambda>request.
            if url request = baseUrl @ ''/simulate'' \<and> http_method request = ''POST''
               \<and> body request = buildConfig params
            then Inr \<lparr> ok = False, status = code, text_of = Inr errorText,
                       json_of = Inr result \<rparr>
            else Inl (FetchError ''unexpected request''))
         baseUrl params
       = Inl (SimulationFailed code errorText)"
    unfolding sent by simp
  have thrown: "runSimulation (\<lambda>request. Inl (FetchError (url request))) baseUrl params
       = Inl (FetchError (baseUrl @ ''/simulate''))"
    unfolding sent by simp
  have request: "body (runSimulation_request baseUrl params) = buildConfig params"
    by (simp add: runSimulation_request_def runSimulation_config_eq_buildConfig)
  have same: "(runSimulation_request baseUrl params) \<lparr> body := buildConfig params \<rparr>
                = runSimulation_request baseUrl params"
    by (simp add: runSimulation_request_def runSimulation_config_eq_buildConfig)
  have run: "runSimulation fetch baseUrl params
       = runSimulation
           (\<lambda>request. fetch (request \<lparr> body := buildConfig params \<rparr>)) baseUrl params"
    by (simp add: runSimulation_def same)
  have fields: "ShockConfig.recovery_rate (SimulationConfig.shock (buildConfig params)) = Some 1
   \<and> ShockConfig.type (SimulationConfig.shock (buildConfig params)) = ''lithium_supply''
   \<and> RulesConfig.subsidy_rate (SimulationConfig.rules (buildConfig params)) = Some 0
   \<and> SimulationConfig.n_firms (buildConfig params) = SimulationParams.n_firms params
   \<and> SimulationConfig.horizon (buildConfig params) = SimulationParams.horizon params
   \<and> SimulationConfig.seed (buildConfig params) = Some (SimulationParams.seed params)
   \<and> ShockConfig.magnitude (SimulationConfig.shock (buildConfig params)) = shock_magnitude params
   \<and> ShockConfig.duration (SimulationConfig.shock (buildConfig params)) = shock_duration params
   \<and> ShockConfig.start (SimulationConfig.shock (buildConfig params)) = shock_start params
   \<and> RulesConfig.tariff (SimulationConfig.rules (buildConfig params)) = SimulationParams.tariff params
   \<and> RulesConfig.route_capacity (SimulationConfig.rules (buildConfig params))
       = SimulationParams.route_capacity params
   \<and> RulesConfig.storage_cap (SimulationConfig.rules (buildConfig params)) = SimulationParams.storage_cap params
   \<and> RulesConfig.demand_elasticity (SimulationConfig.rules (buildConfig params))
       = SimulationParams.demand_elasticity params
   \<and> SimulationConfig.agent (buildConfig params) = Some \<lparr> AgentConfig.type = agent_type params \<rparr>"
    by (simp add: buildConfig_def)
  show ?thesis
    using fields request run sent [of fetch] answered refused thrown by blast
qed


section \<open>The verdict of the comparison view\<close>

lemma metricComparison_defined:
  assumes "baseline_result = Some b" and "metrics b = Some bm"
    and "learned_result = Some l" and "metrics l = Some lm"
  shows "metricComparison baseline_result learned_result =
          [ \<lparr> label = ''Stability'',
              baseline = nullish0 (stability bm),
              learned = nullish0 (stability lm),
              better = (if nullish0 (stability lm) \<ge> nullish0 (stability bm)
                        then ''learned'' else ''baseline''),
              isHigherBetter = True \<rparr>,
            \<lparr> label = ''Cartel Likelihood'',
              baseline = nullish0 (Metrics.cartel_likelihood bm),
              learned = nullish0 (Metrics.cartel_likelihood lm),
              better = (if nullish0 (Metrics.cartel_likelihood lm)
                            \<le> nullish0 (Metrics.cartel_likelihood bm)
                        then ''learned'' else ''baseline''),
              isHigherBetter = False \<rparr>,
            \<lparr> label = ''Welfare'',
              baseline = nullish0 (welfare bm),
              learned = nullish0 (welfare lm),
              better = (if nullish0 (welfare lm) \<ge> nullish0 (welfare bm)
                        then ''learned'' else ''baseline''),
              isHigherBetter = True \<rparr>,
            \<lparr> label = ''Adapt Speed'',
              baseline = nullish0 (adapt_speed bm),
              learned = nullish0 (adapt_speed lm),
              better = (if nullish0 (adapt_speed lm) \<le> nullish0 (adapt_speed bm)
                        then ''learned'' else ''baseline''),
              isHigherBetter = False \<rparr> ]"
  using assms by (simp add: metricComparison_def)

lemma wins_Cons:
  "learnedWins (m # rows) = (if better m = ''learned'' then 1 else 0) + learnedWins rows"
  "baselineWins (m # rows) = (if better m = ''baseline'' then 1 else 0) + baselineWins rows"
  "learnedWins [] = 0" "baselineWins [] = 0"
  by (simp_all add: learnedWins_def baselineWins_def)

lemma wins_total:
  "list_all (\<lambda>m. better m = ''learned'' \<or> better m = ''baseline'') rows
   \<Longrightarrow> learnedWins rows + baselineWins rows = length rows"
  by (induction rows) (auto simp: wins_Cons)

lemma winner_cases:
  assumes "learnedWins rows + baselineWins rows = 4" and "length rows = 4"
  shows "(winner rows = ''learned'') = (learnedWins rows > baselineWins rows)"
    and "(winner rows = ''baseline'') = (baselineWins rows > learnedWins rows)"
    and "(winner rows = ''tie'') = (learnedWins rows = 2 \<and> baselineWins rows = 2)"
  using assms by (auto simp: winner_def)

text \<open>
  C10. For two results with defined metrics, each of the four rows is won by the learned
  agent exactly when its stability or welfare is at least the baseline's, or its cartel
  likelihood or adaptation speed is at most the baseline's (an absent scalar reads as 0);
  so a tie on a row counts for the learned agent. Every row is won by one of the two, the
  winner is the agent with strictly more rows, and the verdict is \<open>tie\<close> exactly at two
  rows each.
\<close>

theorem compareview_better_and_winner:
  assumes "baseline_result = Some b" and "metrics b = Some bm"
    and "learned_result = Some l" and "metrics l = Some lm"
  shows "map label (metricComparison baseline_result learned_result)
           = [''Stability'', ''Cartel Likelihood'', ''Welfare'', ''Adapt Speed'']
   \<and> (better (metricComparison baseline_result learned_result ! 0) = ''learned'')
       = (nullish0 (stability lm) \<ge> nullish0 (stability bm))
   \<and> (better (metricComparison baseline_result learned_result ! 2) = ''learned'')
       = (nullish0 (welfare lm) \<ge> nullish0 (welfare bm))
   \<and> (better (metricComparison baseline_result learned_result ! 1) = ''learned'')
       = (nullish0 (Metrics.cartel_likelihood lm) \<le> nullish0 (Metrics.cartel_likelihood bm))
   \<and> (better (metricComparison baseline_result learned_result ! 3) = ''learned'')
       = (nullish0 (adapt_speed lm) \<le> nullish0 (adapt_speed bm))
   \<and> list_all (\<lambda>m. (better m = ''baseline'') = (better m \<noteq> ''learned''))
        (metricComparison baseline_result learned_result)
   \<and> learnedWins (metricComparison baseline_result learned_result)
       + baselineWins (metricComparison baseline_result learned_result) = 4
   \<and> (winner (metricComparison baseline_result learned_result) = ''learned'')
       = (learnedWins (metricComparison baseline_result learned_result)
           > baselineWins (metricComparison baseline_result learned_result))
   \<and> (winner (metricComparison baseline_result learned_result) = ''baseline'')
       = (baselineWins (metricComparison baseline_result learned_result)
           > learnedWins (metricComparison baseline_result learned_result))
   \<and> (winner (metricComparison baseline_result learned_result) = ''tie'')
       = (learnedWins (metricComparison baseline_result learned_result) = 2
          \<and> baselineWins (metricComparison baseline_result learned_result) = 2)"
proof -
  let ?rows = "metricComparison baseline_result learned_result"
  note rows = metricComparison_defined [OF assms]
  have labels: "map label ?rows
                 = [''Stability'', ''Cartel Likelihood'', ''Welfare'', ''Adapt Speed'']"
    by (simp add: rows)
  have r0: "(better (?rows ! 0) = ''learned'')
              = (nullish0 (stability lm) \<ge> nullish0 (stability bm))"
    by (simp add: rows)
  have r1: "(better (?rows ! 1) = ''learned'')
              = (nullish0 (Metrics.cartel_likelihood lm)
                  \<le> nullish0 (Metrics.cartel_likelihood bm))"
    by (simp add: rows)
  have r2: "(better (?rows ! 2) = ''learned'')
              = (nullish0 (welfare lm) \<ge> nullish0 (welfare bm))"
    by (simp add: rows)
  have r3: "(better (?rows ! 3) = ''learned'')
              = (nullish0 (adapt_speed lm) \<le> nullish0 (adapt_speed bm))"
    by (simp add: rows numeral_3_eq_3)
  have sides: "list_all (\<lambda>m. (better m = ''baseline'') = (better m \<noteq> ''learned'')) ?rows"
    by (simp add: rows)
  have either: "list_all (\<lambda>m. better m = ''learned'' \<or> better m = ''baseline'') ?rows"
    by (simp add: rows)
  have len: "length ?rows = 4"
    by (simp add: rows)
  have total: "learnedWins ?rows + baselineWins ?rows = 4"
    using wins_total [OF either] len by simp
  show ?thesis
    using labels r0 r1 r2 r3 sides total winner_cases [OF total len] by simp
qed

theorem compareview_better_and_winner_witness:
  "metrics (example_result (example_metrics (8 / 10) (3 / 10) 1000 5))
     = Some (example_metrics (8 / 10) (3 / 10) 1000 5)
   \<and> metrics (example_result (example_metrics (8 / 10) (4 / 10) 900 5))
     = Some (example_metrics (8 / 10) (4 / 10) 900 5)
   \<and> map better
        (metricComparison
          (Some (example_result (example_metrics (8 / 10) (3 / 10) 1000 5)))
          (Some (example_result (example_metrics (8 / 10) (4 / 10) 900 5))))
       = [''learned'', ''baseline'', ''baseline'', ''learned'']
   \<and> winner
        (metricComparison
          (Some (example_result (example_metrics (8 / 10) (3 / 10) 1000 5)))
          (Some (example_result (example_metrics (8 / 10) (4 / 10) 900 5))))
       = ''tie''"
proof -
  let ?bm = "example_metrics (8 / 10) (3 / 10) 1000 5"
  let ?lm = "example_metrics (8 / 10) (4 / 10) 900 5"
  have b: "metrics (example_result ?bm) = Some ?bm"
    by (simp add: example_result_def)
  have l: "metrics (example_result ?lm) = Some ?lm"
    by (simp add: example_result_def)
  note main = compareview_better_and_winner [OF refl b refl l]
  have rows: "map better (metricComparison (Some (example_result ?bm)) (Some (example_result ?lm)))
               = [''learned'', ''baseline'', ''baseline'', ''learned'']"
    unfolding metricComparison_defined [OF refl b refl l]
    by (simp add: example_metrics_def nullish0_def)
  have wins: "learnedWins (metricComparison (Some (example_result ?bm)) (Some (example_result ?lm))) = 2"
    "baselineWins (metricComparison (Some (example_result ?bm)) (Some (example_result ?lm))) = 2"
    unfolding metricComparison_defined [OF refl b refl l]
    by (simp_all add: example_metrics_def nullish0_def learnedWins_def baselineWins_def)
  show ?thesis
    using b l rows main wins by simp
qed

section \<open>The rollout: shapes, progress and the loop invariants\<close>

lemma observe_all_length:
  "observe_all C cfg ms pos fs = (obs, pos') \<Longrightarrow> length obs = length fs"
  by (induction fs arbitrary: pos obs pos') (auto split: prod.splits)

lemma decide_all_length:
  "decide_all C sel obs bs = Some ds \<Longrightarrow> length ds = length obs"
  by (induction C sel obs bs arbitrary: ds rule: decide_all.induct)
     (auto split: option.splits)

lemma settle_all_length:
  "length as = length fs \<Longrightarrow> length ss = length fs \<Longrightarrow> length (settle_all cap fs as ss) = length fs"
  by (induction cap fs as ss rule: settle_all.induct) auto

lemma settle_inventory_updated: "inventory_updated cap f (settle cap f a s)"
  by (simp add: inventory_updated_def settle_def)

lemma settle_all_updated:
  "length as = length fs \<Longrightarrow> length ss = length fs
   \<Longrightarrow> list_all2 (inventory_updated cap) fs (settle_all cap fs as ss)"
  by (induction cap fs as ss rule: settle_all.induct) (auto simp: settle_inventory_updated)

lemma settle_bounds:
  "0 \<le> cap \<Longrightarrow> 0 \<le> inventory (settle cap f a s) \<and> inventory (settle cap f a s) \<le> cap"
  by (simp add: settle_def update_inventory_def clamp_def)

lemma settle_all_bounds:
  "0 \<le> cap \<Longrightarrow> list_all (\<lambda>f. 0 \<le> inventory f \<and> inventory f \<le> cap) (settle_all cap fs as ss)"
  by (induction cap fs as ss rule: settle_all.induct) (auto simp: settle_bounds)

lemma clear_market_firms:
  "clear_market C rp mult fs as = (ms, fs') \<Longrightarrow>
   \<exists>ss. length ss = length as \<and> fs' = settle_all (RuleParams.storage_cap rp * base_capacity C) fs as ss"
proof -
  assume "clear_market C rp mult fs as = (ms, fs')"
  then have "fs' = settle_all (RuleParams.storage_cap rp * base_capacity C) fs as
      (firm_sales C
        (fst (fill_ratio_of (sum_list (map production_target as) * mult * RuleParams.route_capacity rp)
               (reference_demand C (price_index_of C as * (1 + RuleParams.tariff rp))
                  (RuleParams.demand_elasticity rp))))
        (reference_demand C (price_index_of C as * (1 + RuleParams.tariff rp))
                  (RuleParams.demand_elasticity rp)) as)"
    by (auto simp: clear_market_def Let_def)
  moreover have "length (firm_sales C x d as) = length as" for x d
    by (simp add: firm_sales_def)
  ultimately show ?thesis by blast
qed

lemma step_Inr:
  assumes "step C cfg p st = Inr (snap, obs, st')"
  shows "period snap = p" and "Snapshot.firms snap = RolloutState.firms st'"
    and "length obs = length (RolloutState.firms st)"
    and "\<exists>as ss. length as = length (RolloutState.firms st) \<and> length ss = length as \<and>
          RolloutState.firms st' = settle_all (RuleParams.storage_cap (rules cfg) * base_capacity C) (RolloutState.firms st) as ss"
    and "length (beliefs st') = length (RolloutState.firms st)"
proof -
  obtain obs0 pos' where o: "observe_all C cfg (RolloutState.market st) (stream_pos st) (RolloutState.firms st) = (obs0, pos')"
    by (cases "observe_all C cfg (RolloutState.market st) (stream_pos st) (RolloutState.firms st)")
  from assms o obtain ds where d: "decide_all C (agent cfg) obs0 (beliefs st) = Some ds"
    by (auto simp: step_def split: option.splits)
  obtain ms fs' where c: "clear_market C (rules cfg) (shock_multiplier C p (shock cfg)) (RolloutState.firms st) (map fst ds) = (ms, fs')"
    by (cases "clear_market C (rules cfg) (shock_multiplier C p (shock cfg)) (RolloutState.firms st) (map fst ds)")
  from assms o d c have snap: "snap = \<lparr> period = p, Snapshot.firms = fs', Snapshot.market = ms \<rparr>"
    and obs: "obs = obs0"
    and st': "st' = \<lparr> RolloutState.firms = fs', RolloutState.market = ms, beliefs = map snd ds, stream_pos = pos' \<rparr>"
    by (simp_all add: step_def)
  have len: "length ds = length (RolloutState.firms st)"
    using decide_all_length [OF d] observe_all_length [OF o] by simp
  show "period snap = p" by (simp add: snap)
  show "Snapshot.firms snap = RolloutState.firms st'" by (simp add: snap st')
  show "length obs = length (RolloutState.firms st)" using observe_all_length [OF o] obs by simp
  show "length (beliefs st') = length (RolloutState.firms st)" using len by (simp add: st')
  from clear_market_firms [OF c] obtain ss where "length ss = length (map fst ds)"
    and "fs' = settle_all (RuleParams.storage_cap (rules cfg) * base_capacity C) (RolloutState.firms st) (map fst ds) ss"
    by blast
  then show "\<exists>as ss. length as = length (RolloutState.firms st) \<and> length ss = length as \<and>
          RolloutState.firms st' = settle_all (RuleParams.storage_cap (rules cfg) * base_capacity C) (RolloutState.firms st) as ss"
    using len by (intro exI [of _ "map fst ds"] exI [of _ ss]) (simp add: st')
qed

lemma rollout_loop_periods:
  "rollout_loop C cfg p st traj = Inr traj' \<Longrightarrow> int p \<le> horizon cfg
   \<Longrightarrow> map period (snapshots traj) = [0 ..< p]
   \<Longrightarrow> length (observations traj) = p
   \<Longrightarrow> map period (snapshots traj') = [0 ..< nat (horizon cfg)]
      \<and> length (observations traj') = nat (horizon cfg)"
proof (induction C cfg p st traj rule: rollout_loop.induct)
  case (1 C cfg p st traj)
  show ?case
  proof (cases "int p < horizon cfg")
    case False
    with "1.prems" have "traj' = traj" "p = nat (horizon cfg)"
      by (simp_all add: rollout_loop.simps [of C cfg p])
    with "1.prems" show ?thesis by simp
  next
    case True
    with "1.prems"(1) obtain snap obs st' where s: "step C cfg p st = Inr (snap, obs, st')"
      and r: "rollout_loop C cfg (p + 1) st'
               \<lparr> snapshots = snapshots traj @ [snap], observations = observations traj @ [obs] \<rparr> = Inr traj'"
      by (auto simp: rollout_loop.simps [of C cfg p] split: sum.splits)
    have "period snap = p" using step_Inr(1) [OF s] .
    with "1.prems" True show ?thesis
      by (intro "1.IH" [OF True s refl refl r]) simp_all
  qed
qed

lemma step_firms_updated:
  assumes "step C cfg p st = Inr (snap, obs, st')"
  shows "list_all2 (inventory_updated (RuleParams.storage_cap (rules cfg) * base_capacity C))
           (RolloutState.firms st) (RolloutState.firms st')"
    and "length (RolloutState.firms st') = length (RolloutState.firms st)"
    and "0 \<le> RuleParams.storage_cap (rules cfg) * base_capacity C \<Longrightarrow>
         list_all (\<lambda>f. 0 \<le> inventory f
                     \<and> inventory f \<le> RuleParams.storage_cap (rules cfg) * base_capacity C)
           (RolloutState.firms st')"
proof -
  from step_Inr(4) [OF assms] obtain as ss where
    len: "length as = length (RolloutState.firms st)" "length ss = length as"
    and fs: "RolloutState.firms st' =
      settle_all (RuleParams.storage_cap (rules cfg) * base_capacity C) (RolloutState.firms st) as ss"
    by blast
  show "list_all2 (inventory_updated (RuleParams.storage_cap (rules cfg) * base_capacity C))
           (RolloutState.firms st) (RolloutState.firms st')"
    unfolding fs using len by (intro settle_all_updated) simp_all
  show "length (RolloutState.firms st') = length (RolloutState.firms st)"
    unfolding fs using len by (intro settle_all_length) simp_all
  show "list_all (\<lambda>f. 0 \<le> inventory f
                     \<and> inventory f \<le> RuleParams.storage_cap (rules cfg) * base_capacity C)
           (RolloutState.firms st')"
    if "0 \<le> RuleParams.storage_cap (rules cfg) * base_capacity C"
    unfolding fs using that by (rule settle_all_bounds)
qed

lemma rollout_loop_inventory:
  "rollout_loop C cfg p st traj = Inr traj'
   \<Longrightarrow> cap = RuleParams.storage_cap (rules cfg) * base_capacity C
   \<Longrightarrow> 0 \<le> cap
   \<Longrightarrow> RolloutState.firms st = last (f0 # map Snapshot.firms (snapshots traj))
   \<Longrightarrow> successively (list_all2 (inventory_updated cap)) (f0 # map Snapshot.firms (snapshots traj))
   \<Longrightarrow> list_all (\<lambda>snap. list_all (\<lambda>f. 0 \<le> inventory f \<and> inventory f \<le> cap)
                  (Snapshot.firms snap)) (snapshots traj)
   \<Longrightarrow> successively (list_all2 (inventory_updated cap)) (f0 # map Snapshot.firms (snapshots traj'))
     \<and> list_all (\<lambda>snap. list_all (\<lambda>f. 0 \<le> inventory f \<and> inventory f \<le> cap)
                  (Snapshot.firms snap)) (snapshots traj')"
proof (induction C cfg p st traj rule: rollout_loop.induct)
  case (1 C cfg p st traj)
  show ?case
  proof (cases "int p < horizon cfg")
    case False
    with "1.prems" have "traj' = traj"
      by (simp add: rollout_loop.simps [of C cfg p])
    with "1.prems" show ?thesis by simp
  next
    case True
    with "1.prems"(1) obtain snap obs st' where s: "step C cfg p st = Inr (snap, obs, st')"
      and r: "rollout_loop C cfg (p + 1) st'
               \<lparr> snapshots = snapshots traj @ [snap], observations = observations traj @ [obs] \<rparr> = Inr traj'"
      by (auto simp: rollout_loop.simps [of C cfg p] split: sum.splits)
    have snap: "Snapshot.firms snap = RolloutState.firms st'"
      using step_Inr(2) [OF s] .
    have upd: "list_all2 (inventory_updated cap) (RolloutState.firms st) (RolloutState.firms st')"
      using step_firms_updated(1) [OF s] "1.prems"(2) by simp
    have bnd: "list_all (\<lambda>f. 0 \<le> inventory f \<and> inventory f \<le> cap) (RolloutState.firms st')"
      using step_firms_updated(3) [OF s] "1.prems"(2,3) by simp
    have hist: "f0 # map Snapshot.firms (snapshots traj @ [snap])
                 = (f0 # map Snapshot.firms (snapshots traj)) @ [RolloutState.firms st']"
      by (simp add: snap)
    have succ: "successively (list_all2 (inventory_updated cap))
                  (f0 # map Snapshot.firms (snapshots traj @ [snap]))"
      unfolding hist successively_append_iff
      using "1.prems"(4,5) upd by simp
    have all: "list_all (\<lambda>snap. list_all (\<lambda>f. 0 \<le> inventory f \<and> inventory f \<le> cap)
                  (Snapshot.firms snap)) (snapshots traj @ [snap])"
      using "1.prems"(6) bnd by (simp add: snap)
    have lst: "RolloutState.firms st' = last (f0 # map Snapshot.firms (snapshots traj @ [snap]))"
      unfolding hist by simp
    show ?thesis
      using "1.IH" [OF True s refl refl r "1.prems"(2,3)] lst succ all by simp
  qed
qed

lemma decide_all_total:
  "(\<And>ob b. decide C sel ob b \<noteq> None) \<Longrightarrow> length obs \<le> length bs
   \<Longrightarrow> \<exists>ds. decide_all C sel obs bs = Some ds"
proof (induction C sel obs bs rule: decide_all.induct)
  case (3 C sel ob obs b bs)
  from "3.prems"(1) obtain d where d: "decide C sel ob b = Some d" by blast
  from "3.IH" [OF d] "3.prems" obtain ds where "decide_all C sel obs bs = Some ds" by auto
  with d show ?case by simp
qed simp_all

lemma decide_total:
  "(\<And>ob. heuristic_policy C ob \<noteq> None) \<Longrightarrow> (\<And>ob b. belief_policy C ob b \<noteq> None)
   \<Longrightarrow> decide C sel ob b \<noteq> None"
  by (cases sel) (auto simp: decide_def split: option.splits)

lemma step_total:
  assumes "\<And>ob. heuristic_policy C ob \<noteq> None" and "\<And>ob b. belief_policy C ob b \<noteq> None"
    and "length (beliefs st) = length (RolloutState.firms st)"
  shows "\<exists>snap obs st'. step C cfg p st = Inr (snap, obs, st')"
proof -
  obtain obs0 pos' where o: "observe_all C cfg (RolloutState.market st) (stream_pos st) (RolloutState.firms st) = (obs0, pos')"
    by (cases "observe_all C cfg (RolloutState.market st) (stream_pos st) (RolloutState.firms st)")
  have "length obs0 \<le> length (beliefs st)"
    using observe_all_length [OF o] assms(3) by simp
  from decide_all_total [OF decide_total [OF assms(1,2)] this]
  obtain ds where d: "decide_all C (agent cfg) obs0 (beliefs st) = Some ds" by blast
  show ?thesis
    using o d by (simp add: step_def split: prod.splits)
qed

lemma rollout_loop_total:
  "(\<And>ob. heuristic_policy C ob \<noteq> None) \<Longrightarrow> (\<And>ob b. belief_policy C ob b \<noteq> None)
   \<Longrightarrow> length (beliefs st) = length (RolloutState.firms st)
   \<Longrightarrow> \<exists>traj'. rollout_loop C cfg p st traj = Inr traj'"
proof (induction C cfg p st traj rule: rollout_loop.induct)
  case (1 C cfg p st traj)
  show ?case
  proof (cases "int p < horizon cfg")
    case False
    then show ?thesis by (simp add: rollout_loop.simps [of C cfg p])
  next
    case True
    from step_total [OF "1.prems"] obtain snap obs st' where
      s: "step C cfg p st = Inr (snap, obs, st')" by blast
    have "length (beliefs st') = length (RolloutState.firms st')"
      using step_Inr(5) [OF s] step_firms_updated(2) [OF s] by simp
    from "1.IH" [OF True s refl refl "1.prems"(1,2) this]
    show ?thesis
      using True s by (simp add: rollout_loop.simps [of C cfg p])
  qed
qed

lemma run_trajectory_total:
  assumes "\<And>ob. heuristic_policy C ob \<noteq> None" and "\<And>ob b. belief_policy C ob b \<noteq> None"
    and "ingest cfg = Inr cfg'"
  shows "\<exists>traj. run_trajectory C cfg = Inr traj"
proof -
  have "length (beliefs (initial_state C cfg')) = length (RolloutState.firms (initial_state C cfg'))"
    by (simp add: initial_state_def initial_firms_def)
  from rollout_loop_total [OF assms(1,2) this]
  show ?thesis by (simp add: run_trajectory_def rollout_def assms(3))
qed

lemma ingest_Inr:
  assumes "ingest cfg = Inr cfg'"
  shows "horizon cfg' = horizon cfg" and "1 \<le> horizon cfg" and "n_firms cfg' = n_firms cfg"
    and "rules cfg' = rules cfg" and "0 < RuleParams.storage_cap (rules cfg)"
  using assms by (auto simp: ingest_def split: if_splits)


section \<open>The trajectory of a completed rollout\<close>

text \<open>
  C5. A rollout that completes has passed ingestion, so its horizon is at least 1; its
  trajectory holds exactly \<open>horizon\<close> snapshots, the snapshot at position \<open>i\<close> is
  the one of period \<open>i\<close> (insertion order is period order), and the observation
  history has one entry per period as well.
\<close>

theorem trajectory_has_horizon_entries:
  assumes "run_trajectory C cfg = Inr traj"
  shows "1 \<le> horizon cfg
    \<and> int (length (snapshots traj)) = horizon cfg
    \<and> map period (snapshots traj) = [0 ..< nat (horizon cfg)]
    \<and> length (observations traj) = length (snapshots traj)"
proof -
  from assms obtain cfg' where i: "ingest cfg = Inr cfg'" and r: "rollout C cfg' = Inr traj"
    by (auto simp: run_trajectory_def split: sum.splits)
  have h: "horizon cfg' = horizon cfg" "1 \<le> horizon cfg"
    using ingest_Inr [OF i] by simp_all
  have r': "rollout_loop C cfg' 0 (initial_state C cfg')
              \<lparr> snapshots = [], observations = [] \<rparr> = Inr traj"
    using r by (simp add: rollout_def)
  have "map period (snapshots traj) = [0 ..< nat (horizon cfg')]
      \<and> length (observations traj) = nat (horizon cfg')"
    using rollout_loop_periods [OF r'] h by simp
  then have p: "map period (snapshots traj) = [0 ..< nat (horizon cfg)]"
    and o: "length (observations traj) = nat (horizon cfg)"
    using h by simp_all
  have "length (snapshots traj) = nat (horizon cfg)"
    using arg_cong [OF p, of length] by simp
  with p o h show ?thesis by simp
qed

theorem trajectory_has_horizon_entries_witness:
  "\<exists>traj. run_trajectory example_components (example_config 36) = Inr traj
     \<and> int (length (snapshots traj)) = 36
     \<and> map period (snapshots traj) = [0 ..< 36]"
proof -
  have h: "heuristic_policy example_components ob \<noteq> None" for ob
    by (simp add: example_components_def)
  have b: "belief_policy example_components ob bs \<noteq> None" for ob bs
    by (simp add: example_components_def)
  have "\<exists>cfg'. ingest (example_config 36) = Inr cfg'"
    by (simp add: ingest_def example_config_def)
  then obtain cfg' where i: "ingest (example_config 36) = Inr cfg'" ..
  from run_trajectory_total [OF h b i] obtain traj where
    r: "run_trajectory example_components (example_config 36) = Inr traj" ..
  have "horizon (example_config 36) = 36"
    by (simp add: example_config_def)
  with trajectory_has_horizon_entries [OF r] r show ?thesis
    by auto
qed


section \<open>Inventories of a completed rollout\<close>

text \<open>
  C2. In a completed rollout, with a non-negative base capacity, every firm's inventory in
  every period's snapshot is at least 0 and at most \<open>storage_cap * base_capacity\<close>.
  From each period to the next (starting from the initial firms) every firm's inventory is
  the update of its previous inventory: the previous inventory plus production minus
  sales, clamped into that interval, so that a sum above the cap leaves exactly the cap
  (the excess is discarded).
\<close>

theorem inventory_within_storage_bounds:
  assumes "run_trajectory C cfg = Inr traj" and "0 \<le> base_capacity C"
  shows "list_all
           (\<lambda>snap. list_all
              (\<lambda>f. 0 \<le> inventory f
                   \<and> inventory f \<le> RuleParams.storage_cap (rules cfg) * base_capacity C)
              (Snapshot.firms snap))
           (snapshots traj)
    \<and> successively
        (list_all2 (inventory_updated (RuleParams.storage_cap (rules cfg) * base_capacity C)))
        (initial_firms C cfg # map Snapshot.firms (snapshots traj))
    \<and> update_inventory (RuleParams.storage_cap (rules cfg) * base_capacity C) stock made sold
        = max 0 (min (RuleParams.storage_cap (rules cfg) * base_capacity C)
                     (stock + made - sold))
    \<and> (RuleParams.storage_cap (rules cfg) * base_capacity C < stock + made - sold
        \<longrightarrow> update_inventory (RuleParams.storage_cap (rules cfg) * base_capacity C)
              stock made sold
            = RuleParams.storage_cap (rules cfg) * base_capacity C)"
proof -
  from assms obtain cfg' where i: "ingest cfg = Inr cfg'" and r: "rollout C cfg' = Inr traj"
    by (auto simp: run_trajectory_def split: sum.splits)
  note ing = ingest_Inr [OF i]
  have cap0: "0 \<le> RuleParams.storage_cap (rules cfg) * base_capacity C"
    using ing assms(2) by simp
  have upd: "update_inventory (RuleParams.storage_cap (rules cfg) * base_capacity C)
               stock made sold
             = max 0 (min (RuleParams.storage_cap (rules cfg) * base_capacity C)
                          (stock + made - sold))"
    by (simp add: update_inventory_def clamp_def)
  have over: "RuleParams.storage_cap (rules cfg) * base_capacity C < stock + made - sold
        \<longrightarrow> update_inventory (RuleParams.storage_cap (rules cfg) * base_capacity C)
              stock made sold
            = RuleParams.storage_cap (rules cfg) * base_capacity C"
    using cap0 by (simp add: update_inventory_def clamp_def)
  have r': "rollout_loop C cfg' 0 (initial_state C cfg')
              \<lparr> snapshots = [], observations = [] \<rparr> = Inr traj"
    using r by (simp add: rollout_def)
  have cap: "0 \<le> RuleParams.storage_cap (rules cfg') * base_capacity C"
    using ing assms(2) by simp
  have init: "initial_firms C cfg' = initial_firms C cfg"
    using ing by (simp add: initial_firms_def)
  have "successively
          (list_all2 (inventory_updated (RuleParams.storage_cap (rules cfg') * base_capacity C)))
          (initial_firms C cfg' # map Snapshot.firms (snapshots traj))
     \<and> list_all
          (\<lambda>snap. list_all
             (\<lambda>f. 0 \<le> inventory f
                  \<and> inventory f \<le> RuleParams.storage_cap (rules cfg') * base_capacity C)
             (Snapshot.firms snap))
          (snapshots traj)"
    using rollout_loop_inventory [OF r' refl cap, of "initial_firms C cfg'"]
    by (simp add: initial_state_def)
  then show ?thesis
    using ing init upd over by simp
qed

theorem inventory_within_storage_bounds_witness:
  "\<exists>traj. run_trajectory example_components (example_config 3) = Inr traj
     \<and> 0 \<le> base_capacity example_components
     \<and> RuleParams.storage_cap (rules (example_config 3)) * base_capacity example_components
         = 120
     \<and> map (\<lambda>snap. map inventory (Snapshot.firms snap)) (snapshots traj)
         = [[80, 80, 80], [110, 110, 110], [120, 120, 120]]
     \<and> list_all
          (\<lambda>snap. list_all (\<lambda>f. 0 \<le> inventory f \<and> inventory f \<le> 120)
             (Snapshot.firms snap))
          (snapshots traj)
     \<and> successively (list_all2 (inventory_updated 120))
          (initial_firms example_components (example_config 3)
             # map Snapshot.firms (snapshots traj))
     \<and> (120::real) < 110 + 100 - 70
     \<and> update_inventory 120 110 100 70 = 120"
proof -
  have "case run_trajectory example_components (example_config 3) of
          Inl e \<Rightarrow> False
        | Inr traj \<Rightarrow>
            map (\<lambda>snap. map inventory (Snapshot.firms snap)) (snapshots traj)
              = [[80, 80, 80], [110, 110, 110], [120, 120, 120]]"
    by code_simp
  then obtain traj where
    r: "run_trajectory example_components (example_config 3) = Inr traj"
    and v: "map (\<lambda>snap. map inventory (Snapshot.firms snap)) (snapshots traj)
              = [[80, 80, 80], [110, 110, 110], [120, 120, 120]]"
    by (cases "run_trajectory example_components (example_config 3)") auto
  have c: "0 \<le> base_capacity example_components"
    by (simp add: example_components_def)
  have cap: "RuleParams.storage_cap (rules (example_config 3)) * base_capacity example_components
               = 120"
    by (simp add: example_components_def example_config_def)
  from inventory_within_storage_bounds [OF r c, of 110 100 70] r c v cap show ?thesis
    by auto
qed

end
